theory Spec2Isabelle
  imports Main "HOL-Library.AList"
begin

section \<open>Values of the Go runtime and of the libraries the package consumes\<close>

text \<open>
  The package \<open>restclient\<close> is one function, \<open>Client.Do\<close>, around four library
  capabilities: \<open>net/url\<close>, \<open>encoding/json\<close>, \<open>net/http\<close> and \<open>log\<close>. The
  libraries are not part of the package; what they compute is a parameter of the model
  (the record \<open>stdlib\<close> below, and the transport inside the \<open>Client\<close>), and the types
  they exchange with the package are modelled as the Go declarations have them.

  A \<open>[]byte\<close> and a Go \<open>string\<close> are both a list of bytes. An \<open>error\<close> is its message.
\<close>

type_synonym bytes = string

datatype error = Err string

fun Error_text :: "error \<Rightarrow> string" where
  "Error_text (Err s) = s"

text \<open>A \<open>time.Time\<close> is a number of seconds; \<open>zero_Time\<close> is the zero value of the type.\<close>

type_synonym Time = int

definition zero_Time :: Time where
  "zero_Time = 0"

type_synonym Method = string

definition GET :: Method where "GET = ''GET''"
definition PUT :: Method where "PUT = ''PUT''"
definition POST :: Method where "POST = ''POST''"
definition DELETE :: Method where "DELETE = ''DELETE''"

text \<open>\<open>url.Userinfo\<close>: \<open>Password()\<close> returns the stored password and whether one was set.\<close>

record Userinfo =
  username :: string
  password :: string
  passwordSet :: bool

definition Username :: "Userinfo \<Rightarrow> string" where
  "Username ui = username ui"

definition Password :: "Userinfo \<Rightarrow> string \<times> bool" where
  "Password ui = (password ui, passwordSet ui)"

text \<open>\<open>url.URL\<close>. The package writes \<open>RawQuery\<close> only.\<close>

record URL =
  Scheme :: string
  Opaque :: string
  User :: "Userinfo option"
  Host :: string
  Path :: string
  RawQuery :: string
  Fragment :: string

text \<open>
  \<open>url.Values\<close> and \<open>http.Header\<close> are both \<open>map[string][]string\<close>, here association
  lists with one entry for each key. \<open>Values.Set\<close> replaces the entry of a key by the
  one-element list; \<open>Header.Add\<close> appends to the entry; \<open>Header.Get\<close> is the first value of
  the entry, or the empty string. (\<open>Header\<close> canonicalises keys; the three keys the package
  uses, \<open>Content-Type\<close>, \<open>Accept\<close> and \<open>Authorization\<close>, are canonical as written.)
\<close>

type_synonym Values = "(string \<times> string list) list"

definition Values_Set :: "Values \<Rightarrow> string \<Rightarrow> string \<Rightarrow> Values" where
  "Values_Set vals k v = AList.update k [v] vals"

type_synonym Header = "(string \<times> string list) list"

definition Header_Add :: "Header \<Rightarrow> string \<Rightarrow> string \<Rightarrow> Header" where
  "Header_Add h k v =
     AList.update k ((case map_of h k of None \<Rightarrow> [] | Some vs \<Rightarrow> vs) @ [v]) h"

definition Header_Set :: "Header \<Rightarrow> string \<Rightarrow> string \<Rightarrow> Header" where
  "Header_Set h k v = AList.update k [v] h"

definition Header_Get :: "Header \<Rightarrow> string \<Rightarrow> string" where
  "Header_Get h k =
     (case map_of h k of None \<Rightarrow> [] | Some [] \<Rightarrow> [] | Some (v # _) \<Rightarrow> v)"

text \<open>
  \<open>http.Request\<close>, the outgoing message, and \<open>http.Response\<close>, the transport's reply.
  The \<open>Body\<close> of a reply is a reader; it is modelled by what \<open>ioutil.ReadAll\<close> returns
  on it: the bytes read, and the error that stopped the read, if any.
\<close>

record http_Request =
  Method :: string
  URL :: string
  Header :: Header
  Body :: "bytes option"

record http_Response =
  StatusCode :: int
  Body :: "bytes \<times> error option"
  Request :: "http_Request option"

definition ReadAll :: "bytes \<times> error option \<Rightarrow> bytes \<times> error option" where
  "ReadAll body = body"

text \<open>
  The destinations. An \<open>interface{}\<close> slot is nil, holds a value, or holds a pointer to
  an object; the objects live in a store, from addresses to contents, that the caller,
  the client and \<open>Do\<close> share. Copying a slot copies the pointer, not the object: two
  slots with the same pointer are one destination.

  \<open>json.Unmarshal(data, &slot)\<close> sees the slot and, behind a pointer, the object: the
  \<open>target\<close>. What it leaves is again a target: the slot set to nil (\<open>Empty\<close>), the slot
  set to a value (\<open>Direct\<close>), or the object behind the pointer rewritten and the slot
  kept (\<open>Through\<close>). It can write nothing else. (\<open>Through\<close> for a slot without pointer
  does not occur; slot and store are then left as they are.)
\<close>

type_synonym addr = nat

datatype 'v iface = INil | IVal 'v | IPtr addr

type_synonym 'v store = "addr \<Rightarrow> 'v"

datatype 'v target = Empty | Direct 'v | Through 'v

definition target_of :: "'v iface \<Rightarrow> 'v store \<Rightarrow> 'v target" where
  "target_of slot st =
     (case slot of INil \<Rightarrow> Empty | IVal v \<Rightarrow> Direct v | IPtr a \<Rightarrow> Through (st a))"

definition put_target :: "'v iface \<Rightarrow> 'v store \<Rightarrow> 'v target \<Rightarrow> 'v iface \<times> 'v store" where
  "put_target slot st t =
     (case t of
        Empty \<Rightarrow> (INil, st)
      | Direct v \<Rightarrow> (IVal v, st)
      | Through v \<Rightarrow> (case slot of IPtr a \<Rightarrow> (slot, st(a := v)) | _ \<Rightarrow> (slot, st)))"


text \<open>
  What the libraries compute. \<open>url_Parse\<close> is \<open>url.Parse\<close>; \<open>url_ParseQuery\<close> is what
  \<open>URL.Query()\<close> makes of \<open>RawQuery\<close> (it drops the parse error); \<open>Values_Encode\<close> is
  \<open>Values.Encode\<close> and \<open>URL_String\<close> is \<open>URL.String\<close>. \<open>json_Marshal\<close> encodes a
  payload. \<open>json_Unmarshal data target\<close> is \<open>json.Unmarshal\<close> on a target: the target
  afterwards and the error, if any. \<open>NewRequest_error\<close> says when \<open>http.NewRequest\<close>
  fails; on failure it returns a nil request, otherwise a request with the method (GET
  for the empty method), the URL, the body and no headers. \<open>base64\<close> is the encoding basic
  authentication uses. \<open>runtime_Caller\<close> is \<open>runtime.Caller\<close>: file, line and whether
  the frame exists. \<open>time_Now\<close> is the wall clock at the time of the call.
\<close>

record ('p, 'v) stdlib =
  url_Parse :: "string \<Rightarrow> error + URL"
  url_ParseQuery :: "string \<Rightarrow> Values"
  Values_Encode :: "Values \<Rightarrow> string"
  URL_String :: "URL \<Rightarrow> string"
  json_Marshal :: "'p \<Rightarrow> error + bytes"
  json_Unmarshal :: "bytes \<Rightarrow> 'v target \<Rightarrow> 'v target \<times> error option"
  NewRequest_error :: "string \<Rightarrow> string \<Rightarrow> error option"
  base64 :: "string \<Rightarrow> string"
  runtime_Caller :: "nat \<Rightarrow> string \<times> int \<times> bool"
  time_Now :: Time

definition Query :: "('p, 'v) stdlib \<Rightarrow> URL \<Rightarrow> Values" where
  "Query w u = url_ParseQuery w (RawQuery u)"

definition http_NewRequest ::
  "('p, 'v) stdlib \<Rightarrow> string \<Rightarrow> string \<Rightarrow> bytes option \<Rightarrow> error + http_Request" where
  "http_NewRequest w m urlStr body =
     (case NewRequest_error w m urlStr of
        Some err \<Rightarrow> Inl err
      | None \<Rightarrow>
          Inr \<lparr>Method = (if m = [] then ''GET'' else m), URL = urlStr, Header = [],
               http_Request.Body = body\<rparr>)"

text \<open>\<open>json.Unmarshal(data, &slot)\<close> on a slot and the store.\<close>

definition decode ::
  "('p, 'v) stdlib \<Rightarrow> bytes \<Rightarrow> 'v iface \<Rightarrow> 'v store \<Rightarrow>
     'v iface \<times> 'v store \<times> error option" where
  "decode w data slot st =
     (case json_Unmarshal w data (target_of slot st) of
        (t, err) \<Rightarrow> (case put_target slot st t of (slot', st') \<Rightarrow> (slot', st', err)))"

definition SetBasicAuth ::
  "('p, 'v) stdlib \<Rightarrow> http_Request \<Rightarrow> string \<Rightarrow> string \<Rightarrow> http_Request" where
  "SetBasicAuth w hReq usr pwd =
     hReq\<lparr>Header := Header_Set (Header hReq) ''Authorization''
                         (''Basic '' @ base64 w (usr @ '':'' @ pwd))\<rparr>"

text \<open>\<open>strconv.Itoa\<close>: the decimal digits, with a minus sign for a negative number.\<close>

fun digits_of :: "nat \<Rightarrow> string" where
  "digits_of n =
     (if n < 10 then [''0123456789'' ! n]
      else digits_of (n div 10) @ [''0123456789'' ! (n mod 10)])"

declare digits_of.simps [simp del]

definition Itoa :: "int \<Rightarrow> string" where
  "Itoa i = (if i < 0 then ''-'' @ digits_of (nat (- i)) else digits_of (nat i))"

text \<open>
  The log. Every call of \<open>log.Println\<close> appends one entry, the list of its arguments.
\<close>

datatype 'r logarg =
    LErr error
  | LStr string
  | LInt int
  | LhResp http_Response
  | LhReq "http_Request option"
  | LResp 'r

type_synonym 'r logentry = "'r logarg list"


section \<open>The package: \<open>Request\<close>, \<open>Response\<close>, \<open>Client\<close>\<close>

text \<open>
  The declarations of \<open>src/unnamed/part_000\<close>, lines 20 to 56. \<open>Params\<close> is a
  \<open>map[string]string\<close>: \<open>None\<close> is the nil map, and the list enumerates the map in the
  order the \<open>range\<close> loop visits it (its keys are distinct). \<open>Headers\<close>, \<open>Userinfo\<close>
  are pointers; \<open>Data\<close> is nil or a payload; \<open>Result\<close> and \<open>Error\<close> are \<open>interface{}\<close>
  slots.
\<close>

record ('p, 'v) Request =
  Url :: string
  Method :: Method
  Userinfo :: "Userinfo option"
  Params :: "(string \<times> string) list option"
  Headers :: "Header option"
  Data :: "'p option"
  Result :: "'v iface"
  Error :: "'v iface"

record ('p, 'v) Response =
  Status :: int
  Timestamp :: Time
  Result :: "'v iface"
  Error :: "'v iface"
  RawText :: string
  Request :: "('p, 'v) Request option"

record 'v Client =
  HttpClient :: "http_Request \<Rightarrow> http_Response option \<times> error option"
  DefaultError :: "'v iface"

text \<open>
  A call of \<open>Do\<close> either panics (a nil pointer is dereferenced) or returns its pair
  \<open>(*Response, error)\<close>. A step inside \<open>Do\<close> panics, leaves \<open>Do\<close> with an error, or
  goes on. The model of \<open>Do\<close> returns four things: the caller's request as \<open>Do\<close> left
  it, the store as \<open>Do\<close> left it, the log entries, and the outcome.
\<close>

datatype 'r outcome =
    Panics
  | Returns "'r option" "error option"

datatype 'a step = Panic | Abort error | Next 'a

definition request_after :: "'a \<times> 'b \<times> 'c \<times> 'd \<Rightarrow> 'a" where
  "request_after r = fst r"

definition store_after :: "'a \<times> 'b \<times> 'c \<times> 'd \<Rightarrow> 'b" where
  "store_after r = fst (snd r)"

definition logged :: "'a \<times> 'b \<times> 'c \<times> 'd \<Rightarrow> 'c" where
  "logged r = fst (snd (snd r))"

definition outcome_of :: "'a \<times> 'b \<times> 'c \<times> 'd \<Rightarrow> 'd" where
  "outcome_of r = snd (snd (snd r))"


section \<open>\<open>Client.unmarshal\<close> and \<open>complain\<close>\<close>

text \<open>
  \<open>unmarshal\<close> (part_000 lines 168 to 175; the same text in \<open>src/restclient.go\<close>, lines
  158 to 165). The parameter \<open>v\<close> is the caller's pointer to its slot. The first
  \<open>json.Unmarshal\<close> writes through it. The assignment \<open>v = new(interface{})\<close> rebinds the
  parameter, a local variable, to a fresh nil slot; the second \<open>json.Unmarshal\<close> writes
  into that fresh slot, which nothing reads after the return. So the function returns
  the caller's slot and the store as the first decode left them, and the error of the
  second decode.
\<close>

definition unmarshal ::
  "('p, 'v) stdlib \<Rightarrow> bytes \<Rightarrow> 'v iface \<Rightarrow> 'v store \<Rightarrow>
     'v iface \<times> 'v store \<times> error option" where
  "unmarshal w data slot st =
     (case decode w data slot st of
        (slot', st', None) \<Rightarrow> (slot', st', None)
      | (slot', st', Some err) \<Rightarrow>
          (case decode w data INil st' of (fresh, st'', err') \<Rightarrow> (slot', st'', err')))"

text \<open>\<open>complain\<close> (part_000 lines 178 to 193): the one entry it logs.\<close>

definition complain :: "('p, 'v) stdlib \<Rightarrow> error \<Rightarrow> int \<Rightarrow> string \<Rightarrow> 'r logentry" where
  "complain w err status rawtext =
     (case runtime_Caller w 2 of (file0, line0, ok) \<Rightarrow>
        let file = (if ok then file0 else ''???'');
            line = (if ok then line0 else 0);
            lineNo = Itoa line;
            s = ''Error executing REST request:\<newline>'';
            s = s @ ''    --> Called from '' @ file @ '':'' @ lineNo @ ''\<newline>'';
            s = s @ ''    --> Got status '' @ Itoa status @ ''\<newline>'';
            s = (if rawtext = []
                 then s
                 else s @ ''    --> Raw text of server response: '' @ rawtext @ ''\<newline>'');
            s = s @ ''    --> '' @ Error_text err
        in [LStr s])"


section \<open>\<open>Client.Do\<close>\<close>

text \<open>Lines 67 to 69: the default error destination. \<open>Do\<close> writes it into the caller's request.\<close>

definition setDefaults :: "'v Client \<Rightarrow> ('p, 'v) Request \<Rightarrow> ('p, 'v) Request" where
  "setDefaults c req =
     (if Request.Error req = INil then req\<lparr>Request.Error := DefaultError c\<rparr> else req)"

text \<open>
  Lines 83 to 89: the query parameters of a GET request. The loop is the fold. This
  step, the message and the \<open>Accept\<close> header read the same in both source files; they
  take the fields of the request they read.
\<close>

definition setParams :: "(string \<times> string) list \<Rightarrow> Values \<Rightarrow> Values" where
  "setParams ps vals = fold (\<lambda>(k, v) vals. Values_Set vals k v) ps vals"

definition addParams ::
  "('p, 'v) stdlib \<Rightarrow> Method \<Rightarrow> (string \<times> string) list option \<Rightarrow> URL \<Rightarrow> URL" where
  "addParams w method params u =
     (if method = GET
      then (case params of
              None \<Rightarrow> u
            | Some ps \<Rightarrow> u\<lparr>RawQuery := Values_Encode w (setParams ps (Query w u))\<rparr>)
      else u)"

text \<open>
  Lines 94 to 112: the message. With a payload, line 107 reads \<open>hReq.Header\<close> before
  line 109 looks at the error of \<open>http.NewRequest\<close>: when that call failed, \<open>hReq\<close> is nil.
\<close>

definition newMessage ::
  "('p, 'v) stdlib \<Rightarrow> Method \<Rightarrow> 'p option \<Rightarrow> string \<Rightarrow> http_Request step" where
  "newMessage w method payload urlStr =
     (let m = method in
      case payload of
        None \<Rightarrow>
          (case http_NewRequest w m urlStr None of
             Inl err \<Rightarrow> Abort err
           | Inr hReq \<Rightarrow> Next hReq)
      | Some d \<Rightarrow>
          (case json_Marshal w d of
             Inl err \<Rightarrow> Abort err
           | Inr b \<Rightarrow>
               (case http_NewRequest w m urlStr (Some b) of
                  Inl err \<Rightarrow> Panic
                | Inr hReq \<Rightarrow>
                    Next (hReq\<lparr>Header :=
                            Header_Add (Header hReq) ''Content-Type'' ''application/json''\<rparr>))))"

text \<open>Lines 116 to 118 and 122 to 125: the \<open>Accept\<close> header and basic authentication.\<close>

definition setAccept :: "http_Request \<Rightarrow> http_Request" where
  "setAccept hReq =
     (if Header_Get (Header hReq) ''Accept'' = []
      then hReq\<lparr>Header := Header_Add (Header hReq) ''Accept'' ''application/json''\<rparr>
      else hReq)"

definition setAuth ::
  "('p, 'v) stdlib \<Rightarrow> Userinfo option \<Rightarrow> http_Request \<Rightarrow> http_Request" where
  "setAuth w userinfo hReq =
     (case userinfo of
        None \<Rightarrow> hReq
      | Some ui \<Rightarrow> (case Password ui of (pwd, _) \<Rightarrow> SetBasicAuth w hReq (Username ui) pwd))"

text \<open>
  Lines 74 to 125 together: from the request to the message handed to the transport.
  Every \<open>Abort\<close> is one of the three \<open>log.Println(err); return nil, err\<close>.
\<close>

definition build :: "('p, 'v) stdlib \<Rightarrow> ('p, 'v) Request \<Rightarrow> http_Request step" where
  "build w req =
     (case url_Parse w (Url req) of
        Inl err \<Rightarrow> Abort err
      | Inr u \<Rightarrow>
          (case newMessage w (Request.Method req) (Request.Data req)
                  (URL_String w (addParams w (Request.Method req) (Request.Params req) u)) of
             Panic \<Rightarrow> Panic
           | Abort err \<Rightarrow> Abort err
           | Next hReq \<Rightarrow> Next (setAuth w (Request.Userinfo req) (setAccept hReq))))"

text \<open>
  Lines 134 to 162: the reply. The \<open>Response\<close> literal of line 134 sets three fields;
  \<open>Timestamp\<close> and \<open>Request\<close> keep their zero values. \<open>Result\<close> and \<open>Error\<close> are
  copies of the request's slots, so a pointer in them is the caller's pointer.
\<close>

definition in2xx :: "int \<Rightarrow> bool" where
  "in2xx status = (status \<ge> 200 \<and> status < 300)"

definition resolve ::
  "('p, 'v) stdlib \<Rightarrow> ('p, 'v) Request \<Rightarrow> http_Response \<Rightarrow> 'v store \<Rightarrow>
     'v store \<times> ('p, 'v) Response logentry list \<times> ('p, 'v) Response outcome" where
  "resolve w req hResp st =
     (let resp = \<lparr>Status = StatusCode hResp, Timestamp = zero_Time,
                  Result = Request.Result req, Error = Request.Error req,
                  RawText = [], Request = None\<rparr>
      in case ReadAll (http_Response.Body hResp) of
           (data, Some err) \<Rightarrow>
             (st, [complain w err (Status resp) data], Returns (Some resp) (Some err))
         | (data, None) \<Rightarrow>
             (let resp = resp\<lparr>RawText := data\<rparr>
              in if RawText resp = [] then (st, [], Returns (Some resp) None)
                 else (case (if in2xx (Status resp)
                             then (case unmarshal w data (Result resp) st of
                                     (v, st', err) \<Rightarrow> (resp\<lparr>Result := v\<rparr>, st', err))
                             else (case unmarshal w data (Error resp) st of
                                     (v, st', err) \<Rightarrow> (resp\<lparr>Error := v\<rparr>, st', err)))
                       of (resp, st', err) \<Rightarrow>
                         (st',
                          (case err of
                             None \<Rightarrow> []
                           | Some e \<Rightarrow>
                               [[LInt (Status resp)], [LErr e], [LStr (RawText resp)],
                                [LhResp hResp], [LhReq (http_Response.Request hResp)]]),
                          Returns (Some resp) err))))"

text \<open>
  Lines 129 to 133: the transport. On an error, line 131 reads \<open>hResp.StatusCode\<close>
  to pass it to \<open>complain\<close>; a transport that failed to connect returns a nil \<open>hResp\<close>.
\<close>

definition exchange ::
  "('p, 'v) stdlib \<Rightarrow> 'v Client \<Rightarrow> ('p, 'v) Request \<Rightarrow> http_Request \<Rightarrow> 'v store \<Rightarrow>
     'v store \<times> ('p, 'v) Response logentry list \<times> ('p, 'v) Response outcome" where
  "exchange w c req hReq st =
     (case HttpClient c hReq of
        (hResp, Some err) \<Rightarrow>
          (case hResp of
             None \<Rightarrow> (st, [], Panics)
           | Some h \<Rightarrow>
               (st, [complain w err (StatusCode h) []], Returns None (Some err)))
      | (hResp, None) \<Rightarrow>
          (case hResp of
             None \<Rightarrow> (st, [], Panics)
           | Some h \<Rightarrow> resolve w req h st))"

text \<open>\<open>Do\<close>, lines 66 to 163.\<close>

definition Do ::
  "('p, 'v) stdlib \<Rightarrow> 'v Client \<Rightarrow> ('p, 'v) Request \<Rightarrow> 'v store \<Rightarrow>
     ('p, 'v) Request \<times> 'v store \<times> ('p, 'v) Response logentry list
       \<times> ('p, 'v) Response outcome" where
  "Do w c req0 st =
     (let req = setDefaults c req0
      in case build w req of
           Panic \<Rightarrow> (req, st, [], Panics)
         | Abort err \<Rightarrow> (req, st, [[LErr err]], Returns None (Some err))
         | Next hReq \<Rightarrow> (req, exchange w c req hReq st))"


section \<open>The text of \<open>src/restclient.go\<close>\<close>

text \<open>
  \<open>src/restclient.go\<close> holds the same package without basic authentication, without
  \<open>Timestamp\<close> and without the default error destination; its names carry the suffix
  \<open>_rc\<close> here. The \<open>Client\<close> is declared as above (its \<open>DefaultError\<close> is never read).
  \<open>Do\<close> (lines 60 to 153) allocates the \<open>Response\<close> first and returns it on every path;
  on a transport error it logs without reading \<open>hResp\<close>. It does not write to the
  request.
\<close>

record ('p, 'v) Request_rc =
  Url :: string
  Method :: Method
  Params :: "(string \<times> string) list option"
  Headers :: "Header option"
  Data :: "'p option"
  Result :: "'v iface"
  Error :: "'v iface"

record ('p, 'v) Response_rc =
  Request :: "('p, 'v) Request_rc option"
  Status :: int
  Result :: "'v iface"
  Error :: "'v iface"
  RawText :: string

definition build_rc :: "('p, 'v) stdlib \<Rightarrow> ('p, 'v) Request_rc \<Rightarrow> http_Request step" where
  "build_rc w req =
     (case url_Parse w (Request_rc.Url req) of
        Inl err \<Rightarrow> Abort err
      | Inr u \<Rightarrow>
          (case newMessage w (Request_rc.Method req) (Request_rc.Data req)
                  (URL_String w
                     (addParams w (Request_rc.Method req) (Request_rc.Params req) u)) of
             Panic \<Rightarrow> Panic
           | Abort err \<Rightarrow> Abort err
           | Next hReq \<Rightarrow> Next (setAccept hReq)))"

definition resolve_rc ::
  "('p, 'v) stdlib \<Rightarrow> ('p, 'v) Response_rc \<Rightarrow> http_Response \<Rightarrow> 'v store \<Rightarrow>
     'v store \<times> ('p, 'v) Response_rc logentry list \<times> ('p, 'v) Response_rc outcome" where
  "resolve_rc w resp0 hResp st =
     (let resp = resp0\<lparr>Response_rc.Status := StatusCode hResp\<rparr>
      in case ReadAll (http_Response.Body hResp) of
           (data, Some err) \<Rightarrow> (st, [[LErr err]], Returns (Some resp) (Some err))
         | (data, None) \<Rightarrow>
             (let resp = resp\<lparr>Response_rc.RawText := data\<rparr>
              in if Response_rc.RawText resp = [] then (st, [], Returns (Some resp) None)
                 else (case (if in2xx (Response_rc.Status resp)
                             then (case unmarshal w data (Response_rc.Result resp) st of
                                     (v, st', err) \<Rightarrow>
                                       (resp\<lparr>Response_rc.Result := v\<rparr>, st', err))
                             else (case unmarshal w data (Response_rc.Error resp) st of
                                     (v, st', err) \<Rightarrow>
                                       (resp\<lparr>Response_rc.Error := v\<rparr>, st', err)))
                       of (resp, st', err) \<Rightarrow>
                         (st',
                          (case err of
                             None \<Rightarrow> []
                           | Some e \<Rightarrow> [[LResp resp], [LErr e]]),
                          Returns (Some resp) err))))"

definition Do_rc ::
  "('p, 'v) stdlib \<Rightarrow> 'v Client \<Rightarrow> ('p, 'v) Request_rc \<Rightarrow> 'v store \<Rightarrow>
     ('p, 'v) Request_rc \<times> 'v store \<times> ('p, 'v) Response_rc logentry list
       \<times> ('p, 'v) Response_rc outcome" where
  "Do_rc w c req st =
     (let resp = \<lparr>Response_rc.Request = Some req, Status = 0,
                  Result = Request_rc.Result req, Error = Request_rc.Error req,
                  RawText = []\<rparr>
      in case build_rc w req of
           Panic \<Rightarrow> (req, st, [], Panics)
         | Abort err \<Rightarrow> (req, st, [[LErr err]], Returns (Some resp) (Some err))
         | Next hReq \<Rightarrow>
             (case HttpClient c hReq of
                (hResp, Some err) \<Rightarrow>
                  (case runtime_Caller w 1 of (file0, line0, ok) \<Rightarrow>
                     let file = (if ok then file0 else ''???'');
                         line = (if ok then line0 else 0);
                         lineNo = Itoa line;
                         s = ''Error executing REST request:\<newline>'';
                         s = s @ [CHR 0x09] @ '' Called from '' @ file @ '':'' @ lineNo
                               @ ''\<newline>'';
                         s = s @ [CHR 0x09] @ '' ''
                     in (req, st, [[LStr s, LErr err]], Returns (Some resp) (Some err)))
              | (hResp, None) \<Rightarrow>
                  (case hResp of
                     None \<Rightarrow> (req, st, [], Panics)
                   | Some h \<Rightarrow> (req, resolve_rc w resp h st))))"


section \<open>A small instance of the libraries, to run the model\<close>

text \<open>
  The theorems below hold for every library and every transport. To run \<open>Do\<close> on
  concrete requests, this section fixes one: JSON restricted to \<open>null\<close>, unsigned
  integers and strings without escapes; URLs of the form \<open>scheme://host/path?query\<close>
  with nothing to escape; a transport that answers a handful of URLs.

  A generic decoded value is a \<open>jval\<close>. The contents of an object, or a value held
  in a slot, are a \<open>goval\<close>: a generic value (an \<open>interface{}\<close> variable, or what the
  decoder stores in a slot), or a Go \<open>string\<close>.
\<close>

datatype jval = JNull | JNum nat | JStr string

datatype goval = Untyped jval | StringVar string

definition is_digit :: "char \<Rightarrow> bool" where
  "is_digit c = (c \<in> set ''0123456789'')"

definition number_of :: "string \<Rightarrow> nat" where
  "number_of s = fold (\<lambda>c n. 10 * n + (of_char c - 48)) s 0"

definition parse_json :: "bytes \<Rightarrow> jval option" where
  "parse_json data =
     (if data = ''null'' then Some JNull
      else if data \<noteq> [] \<and> list_all is_digit data then Some (JNum (number_of data))
      else if length data \<ge> 2 \<and> hd data = CHR 0x22 \<and> last data = CHR 0x22
              \<and> list_all (\<lambda>c. c \<noteq> CHR 0x22 \<and> c \<noteq> CHR 0x5C) (butlast (tl data))
           then Some (JStr (butlast (tl data)))
      else None)"

text \<open>
  The decoder. A text that is not JSON is an error and changes nothing. \<open>null\<close> sets
  the slot to nil. A string goes through a pointer to a \<open>string\<close>; a number does not,
  and is an error that leaves the \<open>string\<close> as it is. Everywhere else the generic value
  is stored.
\<close>

definition sample_Unmarshal :: "bytes \<Rightarrow> goval target \<Rightarrow> goval target \<times> error option" where
  "sample_Unmarshal data t =
     (case parse_json data of
        None \<Rightarrow> (t, Some (Err ''invalid character looking for beginning of value''))
      | Some JNull \<Rightarrow> (Empty, None)
      | Some j \<Rightarrow>
          (case t of
             Through (StringVar s) \<Rightarrow>
               (case j of
                  JStr s' \<Rightarrow> (Through (StringVar s'), None)
                | _ \<Rightarrow>
                    (t, Some (Err ''json: cannot unmarshal number into Go value of type string'')))
           | Through (Untyped old) \<Rightarrow> (Through (Untyped j), None)
           | _ \<Rightarrow> (Direct (Untyped j), None)))"

definition sample_Marshal :: "jval \<Rightarrow> error + bytes" where
  "sample_Marshal j =
     (case j of
        JNull \<Rightarrow> Inr ''null''
      | JNum n \<Rightarrow> Inr (digits_of n)
      | JStr s \<Rightarrow> Inr ([CHR 0x22] @ s @ [CHR 0x22]))"

definition cut :: "char \<Rightarrow> string \<Rightarrow> string \<times> string" where
  "cut c s = (takeWhile (\<lambda>x. x \<noteq> c) s, drop 1 (dropWhile (\<lambda>x. x \<noteq> c) s))"

definition sample_Parse :: "string \<Rightarrow> error + URL" where
  "sample_Parse s =
     (if CHR '' '' \<in> set s then Inl (Err ''parse: invalid character in URL'')
      else case cut CHR ''#'' s of (s1, frag) \<Rightarrow>
           case cut CHR ''?'' s1 of (s2, q) \<Rightarrow>
           case cut CHR '':'' s2 of (scheme, rest) \<Rightarrow>
             Inr \<lparr>Scheme = scheme, Opaque = [], User = None,
                  Host = takeWhile (\<lambda>x. x \<noteq> CHR ''/'') (drop 2 rest),
                  Path = dropWhile (\<lambda>x. x \<noteq> CHR ''/'') (drop 2 rest),
                  RawQuery = q, Fragment = frag\<rparr>)"

definition sample_String :: "URL \<Rightarrow> string" where
  "sample_String u =
     Scheme u @ ''://'' @ Host u @ Path u
       @ (if RawQuery u = [] then [] else ''?'' @ RawQuery u)
       @ (if Fragment u = [] then [] else ''#'' @ Fragment u)"

fun split_on :: "char \<Rightarrow> string \<Rightarrow> string \<Rightarrow> string list" where
  "split_on c acc [] = [rev acc]"
| "split_on c acc (x # xs) =
     (if x = c then rev acc # split_on c [] xs else split_on c (x # acc) xs)"

definition sample_ParseQuery :: "string \<Rightarrow> Values" where
  "sample_ParseQuery q =
     fold (\<lambda>piece vals.
             if piece = [] then vals
             else (case cut CHR ''='' piece of (k, v) \<Rightarrow> Header_Add vals k v))
          (split_on CHR ''&'' [] q) []"

fun str_le :: "string \<Rightarrow> string \<Rightarrow> bool" where
  "str_le [] t = True"
| "str_le (a # s) [] = False"
| "str_le (a # s) (b # t) =
     (if a = b then str_le s t else (of_char a :: nat) < of_char b)"

fun insert_key :: "string \<times> string list \<Rightarrow> Values \<Rightarrow> Values" where
  "insert_key e [] = [e]"
| "insert_key e (x # xs) =
     (if str_le (fst e) (fst x) then e # x # xs else x # insert_key e xs)"

fun join_amp :: "string list \<Rightarrow> string" where
  "join_amp [] = []"
| "join_amp [s] = s"
| "join_amp (s # t # ss) = s @ ''&'' @ join_amp (t # ss)"

definition sample_Encode :: "Values \<Rightarrow> string" where
  "sample_Encode vals =
     join_amp (concat (map (\<lambda>(k, vs). map (\<lambda>v. k @ ''='' @ v) vs)
                           (foldr insert_key vals [])))"

definition sample_stdlib :: "(jval, goval) stdlib" where
  "sample_stdlib =
     \<lparr>url_Parse = sample_Parse,
      url_ParseQuery = sample_ParseQuery,
      Values_Encode = sample_Encode,
      URL_String = sample_String,
      json_Marshal = sample_Marshal,
      json_Unmarshal = sample_Unmarshal,
      NewRequest_error =
        (\<lambda>m urlStr. if CHR '' '' \<in> set m then Some (Err ''net/http: invalid method'')
                    else None),
      base64 = (\<lambda>s. if s = ''user:secret'' then ''dXNlcjpzZWNyZXQ='' else []),
      runtime_Caller = (\<lambda>skip. (''main.go'', 42, True)),
      time_Now = 1351641600\<rparr>"

text \<open>
  The transport: the host \<open>down.test\<close> refuses the connection (a nil response and an
  error); on \<open>api.test\<close>, \<open>/items\<close> answers 200 with a JSON string, \<open>/count\<close> 200
  with a JSON number, \<open>/empty\<close> 200 with no body, and everything else 404 with a
  JSON string.
\<close>

definition starts_with :: "string \<Rightarrow> string \<Rightarrow> bool" where
  "starts_with p s = (take (length p) s = p)"

definition sample_transport :: "http_Request \<Rightarrow> http_Response option \<times> error option" where
  "sample_transport hReq =
     (if starts_with ''http://down.test/'' (URL hReq)
      then (None, Some (Err ''dial tcp: connection refused''))
      else if starts_with ''http://api.test/items'' (URL hReq)
      then (Some \<lparr>StatusCode = 200,
                  http_Response.Body = ([CHR 0x22] @ ''shoes'' @ [CHR 0x22], None),
                  http_Response.Request = Some hReq\<rparr>, None)
      else if URL hReq = ''http://api.test/count''
      then (Some \<lparr>StatusCode = 200, http_Response.Body = (''42'', None),
                  http_Response.Request = Some hReq\<rparr>, None)
      else if URL hReq = ''http://api.test/empty''
      then (Some \<lparr>StatusCode = 200, http_Response.Body = ([], None),
                  http_Response.Request = Some hReq\<rparr>, None)
      else (Some \<lparr>StatusCode = 404,
                  http_Response.Body = ([CHR 0x22] @ ''not found'' @ [CHR 0x22], None),
                  http_Response.Request = Some hReq\<rparr>, None))"

text \<open>
  The store: the caller's result variable at address 1, the client's default error
  variable at address 2, the caller's error variable at address 3, all of them Go
  \<open>string\<close>s.
\<close>

definition sample_store :: "goval store" where
  "sample_store =
     (\<lambda>a. StringVar [])(1 := StringVar ''old'', 3 := StringVar ''old error'')"

definition sample_client :: "goval Client" where
  "sample_client = \<lparr>HttpClient = sample_transport, DefaultError = IPtr 2\<rparr>"

text \<open>
  The requests: a GET with nothing set, and variations of it. \<open>get_shoes\<close> has a query
  in its URL and a parameter that overwrites one of its keys; \<open>post_widget\<close> has a
  payload, parameters and headers; \<open>get_count\<close> asks for a number into a \<open>string\<close>
  variable; \<open>bad_method\<close> has a payload and a method \<open>http.NewRequest\<close> rejects;
  \<open>get_missing_one\<close> passes one variable as both destinations. \<open>get_missing_rc\<close> is
  \<open>get_missing\<close> for \<open>src/restclient.go\<close>.
\<close>

definition sample_request :: "(jval, goval) Request" where
  "sample_request =
     \<lparr>Request.Url = ''http://api.test/items'', Request.Method = GET,
      Request.Userinfo = None, Request.Params = None, Request.Headers = None,
      Request.Data = None, Request.Result = INil, Request.Error = INil\<rparr>"

definition get_shoes :: "(jval, goval) Request" where
  "get_shoes =
     sample_request\<lparr>Request.Url := ''http://api.test/items?q=hats&page=2'',
                    Request.Params := Some [(''q'', ''shoes'')],
                    Request.Result := IPtr 1\<rparr>"

definition post_widget :: "(jval, goval) Request" where
  "post_widget =
     sample_request\<lparr>Request.Method := POST,
                    Request.Params := Some [(''q'', ''shoes'')],
                    Request.Headers :=
                      Some [(''X-Token'', [''abc'']), (''Accept'', [''text/plain''])],
                    Request.Data := Some (JStr ''widget'')\<rparr>"

definition get_missing :: "(jval, goval) Request" where
  "get_missing =
     sample_request\<lparr>Request.Url := ''http://api.test/missing'',
                    Request.Result := IPtr 1\<rparr>"


definition get_empty :: "(jval, goval) Request" where
  "get_empty =
     sample_request\<lparr>Request.Url := ''http://api.test/empty'',
                    Request.Result := IPtr 1,
                    Request.Error := IPtr 3\<rparr>"

definition get_count :: "(jval, goval) Request" where
  "get_count =
     sample_request\<lparr>Request.Url := ''http://api.test/count'',
                    Request.Result := IPtr 1\<rparr>"

definition get_down :: "(jval, goval) Request" where
  "get_down = sample_request\<lparr>Request.Url := ''http://down.test/items''\<rparr>"

definition bad_method :: "(jval, goval) Request" where
  "bad_method =
     sample_request\<lparr>Request.Method := ''BAD METHOD'',
                    Request.Data := Some (JStr ''widget'')\<rparr>"

definition get_missing_rc :: "(jval, goval) Request_rc" where
  "get_missing_rc =
     \<lparr>Request_rc.Url = ''http://api.test/missing'', Request_rc.Method = GET,
      Request_rc.Params = None, Request_rc.Headers = None, Request_rc.Data = None,
      Request_rc.Result = IPtr 1, Request_rc.Error = INil\<rparr>"


section \<open>Facts about the steps of \<open>Do\<close>\<close>



lemma decode_no_pointer:
  "(\<And>a. slot \<noteq> IPtr a) \<Longrightarrow> fst (snd (decode w data slot st)) = st"
  by (cases slot)
    (auto simp add: decode_def put_target_def split: prod.splits target.splits)

text \<open>
  \<open>unmarshal\<close> leaves slot and store as its first decode leaves them; its error is that
  of the decode into the fresh slot when the first decode failed.
\<close>

lemma unmarshal_slot: "fst (unmarshal w data slot st) = fst (decode w data slot st)"
  by (simp add: unmarshal_def split: prod.splits option.splits)

lemma decode_INil_store: "fst (snd (decode w data INil st)) = st"
  by (rule decode_no_pointer) simp

lemma unmarshal_store:
  "fst (snd (unmarshal w data slot st)) = fst (snd (decode w data slot st))"
proof -
  have "aa = a" if "decode w data INil a = (x, aa, b)" for a aa x b
    using decode_INil_store [of w data a] that by simp
  then show ?thesis
    by (auto simp add: unmarshal_def split: prod.splits option.splits)
qed

lemma unmarshal_error:
  "snd (snd (unmarshal w data slot st)) =
     (case snd (snd (decode w data slot st)) of
        None \<Rightarrow> None
      | Some e \<Rightarrow> snd (json_Unmarshal w data Empty))"
  by (auto simp add: unmarshal_def decode_def target_of_def split: prod.splits option.splits)

lemma setDefaults_Result: "Request.Result (setDefaults c req) = Request.Result req"
  by (simp add: setDefaults_def)

lemma setDefaults_unset:
  "Request.Error req = INil \<Longrightarrow> setDefaults c req = req\<lparr>Request.Error := DefaultError c\<rparr>"
  by (simp add: setDefaults_def)

lemma Do_request: "request_after (Do w c req st) = setDefaults c req"
  by (simp add: Do_def Let_def request_after_def split: step.splits)

lemma Do_exchange:
  "build w (setDefaults c req) = Next m \<Longrightarrow>
   Do w c req st = (setDefaults c req, exchange w c (setDefaults c req) m st)"
  by (simp add: Do_def Let_def)

lemma exchange_reply:
  "HttpClient c m = (Some h, None) \<Longrightarrow> exchange w c req m st = resolve w req h st"
  by (simp add: exchange_def)


lemma resolve_other:
  assumes "http_Response.Body h = (data, None)" and "data \<noteq> []"
    and "\<not> in2xx (StatusCode h)"
  shows "\<exists>lg. resolve w req h st =
           (fst (snd (unmarshal w data (Request.Error req) st)), lg,
            Returns (Some \<lparr>Response.Status = StatusCode h, Timestamp = zero_Time,
                           Result = Request.Result req,
                           Error = fst (unmarshal w data (Request.Error req) st),
                           RawText = data, Request = None\<rparr>)
                    (snd (snd (unmarshal w data (Request.Error req) st))))"
  using assms by (simp add: resolve_def ReadAll_def split: prod.splits)

lemma resolve_empty:
  assumes "http_Response.Body h = ([], None)"
  shows "resolve w req h st =
           (st, [], Returns (Some \<lparr>Response.Status = StatusCode h, Timestamp = zero_Time,
                                   Result = Request.Result req, Error = Request.Error req,
                                   RawText = [], Request = None\<rparr>) None)"
  using assms by (simp add: resolve_def ReadAll_def)

text \<open>The decoder has no part in building the message.\<close>

lemma addParams_without_decoder:
  "addParams (w\<lparr>json_Unmarshal := U\<rparr>) method params u = addParams w method params u"
  by (simp add: addParams_def Query_def split: option.splits)

lemma newMessage_without_decoder:
  "newMessage (w\<lparr>json_Unmarshal := U\<rparr>) method payload urlStr
     = newMessage w method payload urlStr"
  by (simp add: newMessage_def http_NewRequest_def split: option.splits sum.splits)

lemma setAuth_without_decoder: "setAuth (w\<lparr>json_Unmarshal := U\<rparr>) ui m = setAuth w ui m"
  by (simp add: setAuth_def SetBasicAuth_def split: option.splits prod.splits)

lemma build_without_decoder: "build (w\<lparr>json_Unmarshal := U\<rparr>) req = build w req"
  by (simp add: build_def addParams_without_decoder newMessage_without_decoder
      setAuth_without_decoder split: sum.splits step.splits)

text \<open>The message that leaves \<open>build\<close>: its URL, its body, its headers.\<close>

lemma setAccept_fields:
  "http_Request.URL (setAccept m) = http_Request.URL m"
  "http_Request.Body (setAccept m) = http_Request.Body m"
  "http_Request.Method (setAccept m) = http_Request.Method m"
  by (simp_all add: setAccept_def)


lemma setAccept_other_key:
  "k \<noteq> ''Accept'' \<Longrightarrow> map_of (Header (setAccept m)) k = map_of (Header m) k"
  by (simp add: setAccept_def Header_Add_def update_conv')


lemma newMessage_Next:
  assumes "newMessage w method payload urlStr = Next m"
  shows "http_Request.URL m = urlStr"
    and "http_Request.Method m = (if method = [] then ''GET'' else method)"
    and "case payload of
           None \<Rightarrow> http_Request.Body m = None \<and> Header m = []
         | Some d \<Rightarrow>
             json_Marshal w d = Inr (the (http_Request.Body m))
           \<and> http_Request.Body m \<noteq> None
           \<and> Header m = [(''Content-Type'', [''application/json''])]"
  using assms
  by (auto simp add: newMessage_def http_NewRequest_def Header_Add_def Let_def
      split: option.splits sum.splits)





section \<open>The reply: which destination is decoded into\<close>





section \<open>The message: query parameters, payload\<close>






section \<open>The reply: an empty body\<close>

text \<open>
  Claim C6. When the transport answers with an empty body, \<open>Do\<close> logs nothing, leaves
  the store as it is, and returns no error and a response that carries the reply's
  status, the empty text, the caller's \<open>Result\<close> and the error destination the request
  carried into the exchange. The decoder is not consulted: the outcome is the same with
  any other decoder.
\<close>

theorem empty_body_untouched:
  assumes "build w (setDefaults c req) = Next m"
    and "HttpClient c m = (Some h, None)"
    and "http_Response.Body h = ([], None)"
  shows "Do w c req st =
           (setDefaults c req, st, [],
            Returns (Some \<lparr>Response.Status = StatusCode h, Timestamp = zero_Time,
                           Result = Request.Result req,
                           Error = Request.Error (setDefaults c req),
                           RawText = [], Request = None\<rparr>) None)
       \<and> (\<forall>U. Do (w\<lparr>json_Unmarshal := U\<rparr>) c req st = Do w c req st)"
proof -
  have here: "Do w' c req st =
           (setDefaults c req, st, [],
            Returns (Some \<lparr>Response.Status = StatusCode h, Timestamp = zero_Time,
                           Result = Request.Result req,
                           Error = Request.Error (setDefaults c req),
                           RawText = [], Request = None\<rparr>) None)"
    if "build w' (setDefaults c req) = Next m" for w' :: "('a, 'b) stdlib"
    by (simp add: Do_exchange [OF that] exchange_reply [OF assms(2)]
        resolve_empty [OF assms(3)] setDefaults_Result)
  have "Do (w\<lparr>json_Unmarshal := U\<rparr>) c req st = Do w c req st" for U
    using here [of w] here [of "w\<lparr>json_Unmarshal := U\<rparr>"] assms(1)
    by (simp add: build_without_decoder)
  with here [OF assms(1)] show ?thesis by simp
qed

text \<open>
  The theorem at \<open>get_empty\<close>: status 200, no body, both destinations the caller's
  pointers, the store as it was.
\<close>

theorem empty_body_untouched_witness:
  "build sample_stdlib (setDefaults sample_client get_empty)
     = Next \<lparr>http_Request.Method = ''GET'', URL = ''http://api.test/empty'',
             Header = [(''Accept'', [''application/json''])], http_Request.Body = None\<rparr>
   \<and> HttpClient sample_client
        \<lparr>http_Request.Method = ''GET'', URL = ''http://api.test/empty'',
         Header = [(''Accept'', [''application/json''])], http_Request.Body = None\<rparr>
       = (Some \<lparr>StatusCode = 200, http_Response.Body = ([], None),
                http_Response.Request =
                  Some \<lparr>http_Request.Method = ''GET'', URL = ''http://api.test/empty'',
                        Header = [(''Accept'', [''application/json''])],
                        http_Request.Body = None\<rparr>\<rparr>, None)
   \<and> Do sample_stdlib sample_client get_empty sample_store
       = (get_empty, sample_store, [],
          Returns (Some \<lparr>Response.Status = 200, Timestamp = zero_Time,
                         Result = IPtr 1, Error = IPtr 3,
                         RawText = [], Request = None\<rparr>) None)
   \<and> Do (sample_stdlib\<lparr>json_Unmarshal := (\<lambda>data t. (Empty, Some (Err ''no decoder'')))\<rparr>)
        sample_client get_empty sample_store
       = Do sample_stdlib sample_client get_empty sample_store"
proof -
  let ?m = "\<lparr>http_Request.Method = ''GET'', URL = ''http://api.test/empty'',
             Header = [(''Accept'', [''application/json''])], http_Request.Body = None\<rparr>"
  let ?h = "\<lparr>StatusCode = 200, http_Response.Body = ([], None),
             http_Response.Request = Some ?m\<rparr>"
  have b: "build sample_stdlib (setDefaults sample_client get_empty) = Next ?m"
    by code_simp
  have t: "HttpClient sample_client ?m = (Some ?h, None)"
    by code_simp
  have d: "http_Response.Body ?h = ([], None)"
    by simp
  have s: "setDefaults sample_client get_empty = get_empty"
    by code_simp
  have r: "Request.Result get_empty = IPtr 1"
    by code_simp
  have e: "Request.Error get_empty = IPtr 3"
    by code_simp
  from empty_body_untouched [OF b t d, of sample_store] s r e b t show ?thesis
    by simp
qed


section \<open>Where \<open>Do\<close> departs from its documentation\<close>

text \<open>
  The general facts first. A transport error that comes with a nil response makes
  \<open>Do\<close> panic, before anything is logged; with a response, \<open>Do\<close> logs the complaint
  and returns no response and the error. A payload whose message \<open>http.NewRequest\<close>
  rejects makes the message step panic. The \<open>Headers\<close> of the request are not read.
  Every response \<open>Do\<close> returns comes out of \<open>resolve\<close>, so its \<open>Timestamp\<close> is the
  zero time, and at most one of its two slots has been decoded into.
\<close>

lemma transport_error_nil_response:
  assumes "build w (setDefaults c req) = Next m" and "HttpClient c m = (None, Some err)"
  shows "Do w c req st = (setDefaults c req, st, [], Panics)"
  by (simp add: Do_exchange [OF assms(1)] exchange_def assms(2))

lemma transport_error_with_response:
  assumes "build w (setDefaults c req) = Next m" and "HttpClient c m = (Some h, Some err)"
  shows "Do w c req st =
           (setDefaults c req, st, [complain w err (StatusCode h) []],
            Returns None (Some err))"
  by (simp add: Do_exchange [OF assms(1)] exchange_def assms(2))

lemma payload_and_NewRequest_error:
  assumes "json_Marshal w d = Inr b" and "NewRequest_error w method urlStr = Some err"
  shows "newMessage w method (Some d) urlStr = Panic"
  using assms by (simp add: newMessage_def http_NewRequest_def)

lemma build_ignores_Headers: "build w (req\<lparr>Request.Headers := hs\<rparr>) = build w req"
  by (simp add: build_def cong: sum.case_cong step.case_cong)

lemma Do_returns_resolve:
  assumes "Do w c req st = (req', st', lg, Returns (Some resp) err)"
  shows "\<exists>h. resolve w (setDefaults c req) h st = (st', lg, Returns (Some resp) err)"
proof (cases "build w (setDefaults c req)")
  case Panic
  with assms show ?thesis by (simp add: Do_def Let_def)
next
  case (Abort e)
  with assms show ?thesis by (simp add: Do_def Let_def)
next
  case (Next m)
  from assms
  have ex: "exchange w c (setDefaults c req) m st = (st', lg, Returns (Some resp) err)"
    by (auto simp add: Do_exchange [OF Next])
  obtain hr e where t: "HttpClient c m = (hr, e)" by (cases "HttpClient c m")
  from ex t obtain h where "hr = Some h" and "e = None"
    by (auto simp add: exchange_def split: option.splits)
  with ex t have "resolve w (setDefaults c req) h st = (st', lg, Returns (Some resp) err)"
    by (simp add: exchange_def)
  then show ?thesis ..
qed

lemma resolve_Timestamp:
  "resolve w req h st = (st', lg, Returns (Some resp) err) \<Longrightarrow>
   Response.Timestamp resp = zero_Time"
  by (auto simp add: resolve_def ReadAll_def Let_def split: prod.splits option.splits if_splits)

lemma Do_Timestamp:
  assumes "Do w c req st = (req', st', lg, Returns (Some resp) err)"
  shows "Response.Timestamp resp = zero_Time"
  using Do_returns_resolve [OF assms] by (auto dest: resolve_Timestamp)

lemma resolve_one_slot:
  "resolve w req h st = (st', lg, Returns (Some resp) err) \<Longrightarrow>
   Response.Result resp = Request.Result req \<or> Response.Error resp = Request.Error req"
  by (auto simp add: resolve_def ReadAll_def Let_def split: prod.splits option.splits if_splits)

lemma Do_one_slot:
  assumes "Do w c req st = (req', st', lg, Returns (Some resp) err)"
  shows "Response.Result resp = Request.Result req
       \<or> Response.Error resp = Request.Error (setDefaults c req)"
  using Do_returns_resolve [OF assms]
  by (auto dest: resolve_one_slot simp add: setDefaults_Result)

text \<open>
  Claim C1 (the code departs from it). \<open>get_count\<close> asks for \<open>/count\<close> with a pointer to
  a \<open>string\<close> variable as its \<open>Result\<close>; the reply is 200 with the body \<open>42\<close>. Decoding
  into the \<open>string\<close> fails, the generic decode of the same body succeeds and yields the
  number 42, and \<open>Do\<close> returns no error: but the \<open>Result\<close> of the response is the
  caller's pointer and the variable behind it is unchanged, not the generic value. The
  value of the second decode is lost inside \<open>unmarshal\<close>.
\<close>

theorem fallback_value_is_lost:
  "json_Unmarshal sample_stdlib ''42'' (Through (StringVar ''old''))
     = (Through (StringVar ''old''),
        Some (Err ''json: cannot unmarshal number into Go value of type string''))
   \<and> json_Unmarshal sample_stdlib ''42'' Empty = (Direct (Untyped (JNum 42)), None)
   \<and> fst (unmarshal sample_stdlib ''42'' (IPtr 1) sample_store) = IPtr 1
   \<and> fst (snd (unmarshal sample_stdlib ''42'' (IPtr 1) sample_store)) 1 = StringVar ''old''
   \<and> snd (snd (unmarshal sample_stdlib ''42'' (IPtr 1) sample_store)) = None
   \<and> request_after (Do sample_stdlib sample_client get_count sample_store)
       = get_count\<lparr>Request.Error := IPtr 2\<rparr>
   \<and> logged (Do sample_stdlib sample_client get_count sample_store) = []
   \<and> outcome_of (Do sample_stdlib sample_client get_count sample_store)
       = Returns (Some \<lparr>Response.Status = 200, Timestamp = zero_Time,
                         Result = IPtr 1, Error = IPtr 2,
                         RawText = ''42'', Request = None\<rparr>) None
   \<and> store_after (Do sample_stdlib sample_client get_count sample_store) 1
       = StringVar ''old''"
  by code_simp

text \<open>
  Claim C5 (the code departs from it). \<open>get_down\<close> asks a host that refuses the
  connection: the transport returns a nil response and an error. \<open>Do\<close> does not return
  the error: it panics on \<open>hResp.StatusCode\<close>, and nothing has been logged.
\<close>

theorem transport_failure_panics:
  "build sample_stdlib (setDefaults sample_client get_down)
     = Next \<lparr>http_Request.Method = ''GET'', URL = ''http://down.test/items'',
             Header = [(''Accept'', [''application/json''])], http_Request.Body = None\<rparr>
   \<and> HttpClient sample_client
        \<lparr>http_Request.Method = ''GET'', URL = ''http://down.test/items'',
         Header = [(''Accept'', [''application/json''])], http_Request.Body = None\<rparr>
       = (None, Some (Err ''dial tcp: connection refused''))
   \<and> request_after (Do sample_stdlib sample_client get_down sample_store)
       = get_down\<lparr>Request.Error := IPtr 2\<rparr>
   \<and> logged (Do sample_stdlib sample_client get_down sample_store) = []
   \<and> outcome_of (Do sample_stdlib sample_client get_down sample_store) = Panics"
  by code_simp

text \<open>
  Claim C7 (the code departs from it). \<open>post_widget\<close> sets two headers, \<open>X-Token\<close> and
  an \<open>Accept\<close> of its own. The outgoing message has neither: its headers are the two
  \<open>Do\<close> adds itself, and the message is the one built for the same request without
  \<open>Headers\<close>.
\<close>

theorem Headers_not_attached:
  "Request.Headers post_widget
     = Some [(''X-Token'', [''abc'']), (''Accept'', [''text/plain''])]
   \<and> build sample_stdlib post_widget
       = Next \<lparr>http_Request.Method = ''POST'', URL = ''http://api.test/items'',
               Header = [(''Content-Type'', [''application/json'']),
                         (''Accept'', [''application/json''])],
               http_Request.Body = Some ([CHR 0x22] @ ''widget'' @ [CHR 0x22])\<rparr>
   \<and> build sample_stdlib (post_widget\<lparr>Request.Headers := None\<rparr>)
       = build sample_stdlib post_widget"
  by code_simp

text \<open>
  Claim C8 (the code departs from it). Two calls that panic. \<open>bad_method\<close> has a
  payload and a method that \<open>http.NewRequest\<close> rejects: the request is nil when line 107
  adds the \<open>Content-Type\<close> header to it. A POST to the host that refuses the connection:
  the response is nil when line 131 reads its status.
\<close>

theorem Do_panics:
  "json_Marshal sample_stdlib (JStr ''widget'') = Inr ([CHR 0x22] @ ''widget'' @ [CHR 0x22])
   \<and> http_NewRequest sample_stdlib ''BAD METHOD'' ''http://api.test/items''
        (Some ([CHR 0x22] @ ''widget'' @ [CHR 0x22]))
       = Inl (Err ''net/http: invalid method'')
   \<and> request_after (Do sample_stdlib sample_client bad_method sample_store)
       = bad_method\<lparr>Request.Error := IPtr 2\<rparr>
   \<and> logged (Do sample_stdlib sample_client bad_method sample_store) = []
   \<and> outcome_of (Do sample_stdlib sample_client bad_method sample_store) = Panics
   \<and> request_after
        (Do sample_stdlib sample_client
           (post_widget\<lparr>Request.Url := ''http://down.test/items''\<rparr>) sample_store)
       = post_widget\<lparr>Request.Url := ''http://down.test/items'', Request.Error := IPtr 2\<rparr>
   \<and> logged
        (Do sample_stdlib sample_client
           (post_widget\<lparr>Request.Url := ''http://down.test/items''\<rparr>) sample_store)
       = []
   \<and> outcome_of
        (Do sample_stdlib sample_client
           (post_widget\<lparr>Request.Url := ''http://down.test/items''\<rparr>) sample_store)
       = Panics"
  by code_simp

text \<open>
  Claim C9 (the code departs from it). The \<open>Do\<close> of \<open>src/restclient.go\<close> never reads
  the client's \<open>DefaultError\<close>. \<open>get_missing_rc\<close> sets no error destination and the
  client's default is the pointer to the variable at address 2; the reply is 404 with a
  body. The body is decoded into the request's own nil slot, generically, and the
  default object is as it was.
\<close>

theorem default_error_not_used:
  "Request_rc.Error get_missing_rc = INil
   \<and> DefaultError sample_client = IPtr 2
   \<and> sample_store 2 = StringVar []
   \<and> logged (Do_rc sample_stdlib sample_client get_missing_rc sample_store) = []
   \<and> outcome_of (Do_rc sample_stdlib sample_client get_missing_rc sample_store)
       = Returns (Some \<lparr>Response_rc.Request = Some get_missing_rc, Status = 404,
                         Result = IPtr 1,
                         Error = IVal (Untyped (JStr ''not found'')),
                         RawText = [CHR 0x22] @ ''not found'' @ [CHR 0x22]\<rparr>) None
   \<and> store_after (Do_rc sample_stdlib sample_client get_missing_rc sample_store) 2
       = StringVar []"
  by code_simp

text \<open>
  The \<open>Do\<close> of part_000 does what the claim says. With the request's error destination
  unset it writes the client's default into the request, and a reply with a status
  outside 200 to 299 and a body is decoded through it: the request, the response and
  the client then hold the same slot, and behind its pointer the store holds what the
  decode left.
\<close>

lemma Do_default_error_destination:
  assumes "Request.Error req = INil"
    and "build w (req\<lparr>Request.Error := DefaultError c\<rparr>) = Next m"
    and "HttpClient c m = (Some h, None)"
    and "http_Response.Body h = (data, None)"
    and "data \<noteq> []"
    and "\<not> in2xx (StatusCode h)"
  shows "\<exists>lg resp err.
           Do w c req st
             = (req\<lparr>Request.Error := DefaultError c\<rparr>,
                fst (snd (decode w data (DefaultError c) st)), lg,
                Returns (Some resp) err)
         \<and> Response.Error resp = fst (decode w data (DefaultError c) st)
         \<and> Response.Result resp = Request.Result req"
proof -
  let ?req = "req\<lparr>Request.Error := DefaultError c\<rparr>"
  have s: "setDefaults c req = ?req"
    using assms(1) by (rule setDefaults_unset)
  from assms(2) have b: "build w (setDefaults c req) = Next m"
    by (simp add: s)
  from resolve_other [OF assms(4) assms(5) assms(6), of w ?req st]
  obtain lg where "resolve w ?req h st =
      (fst (snd (unmarshal w data (Request.Error ?req) st)), lg,
       Returns (Some \<lparr>Response.Status = StatusCode h, Timestamp = zero_Time,
                      Result = Request.Result ?req,
                      Error = fst (unmarshal w data (Request.Error ?req) st),
                      RawText = data, Request = None\<rparr>)
               (snd (snd (unmarshal w data (Request.Error ?req) st))))"
    by blast
  then show ?thesis
    by (simp add: Do_exchange [OF b] exchange_reply [OF assms(3)] s unmarshal_slot
        unmarshal_store)
qed

lemma Do_default_error_at_get_missing:
  "request_after (Do sample_stdlib sample_client get_missing sample_store)
     = get_missing\<lparr>Request.Error := IPtr 2\<rparr>
   \<and> outcome_of (Do sample_stdlib sample_client get_missing sample_store)
       = Returns (Some \<lparr>Response.Status = 404, Timestamp = zero_Time,
                         Result = IPtr 1, Error = IPtr 2,
                         RawText = [CHR 0x22] @ ''not found'' @ [CHR 0x22],
                         Request = None\<rparr>) None
   \<and> store_after (Do sample_stdlib sample_client get_missing sample_store) 2
       = StringVar ''not found''"
  by code_simp

text \<open>
  Claim C10 (the code departs from it). \<open>get_shoes\<close> completes the exchange at the
  time the clock shows; the \<open>Timestamp\<close> of the response is the zero time, not that time.
\<close>

theorem Timestamp_not_recorded:
  "request_after (Do sample_stdlib sample_client get_shoes sample_store)
     = get_shoes\<lparr>Request.Error := IPtr 2\<rparr>
   \<and> logged (Do sample_stdlib sample_client get_shoes sample_store) = []
   \<and> outcome_of (Do sample_stdlib sample_client get_shoes sample_store)
       = Returns (Some \<lparr>Response.Status = 200, Timestamp = zero_Time,
                         Result = IPtr 1, Error = IPtr 2,
                         RawText = [CHR 0x22] @ ''shoes'' @ [CHR 0x22],
                         Request = None\<rparr>) None
   \<and> store_after (Do sample_stdlib sample_client get_shoes sample_store) 1
       = StringVar ''shoes''
   \<and> time_Now sample_stdlib = 1351641600
   \<and> zero_Time \<noteq> time_Now sample_stdlib"
  by code_simp


section \<open>The same steps in \<open>src/restclient.go\<close>\<close>

text \<open>
  The two texts of \<open>Do\<close> share the parameter step and the message, so the facts about
  the URL and the body carry over; the resolution of the reply reads the same. They
  differ where \<open>src/restclient.go\<close> does not use the default error destination, and on
  a transport error: there it returns the response it allocated, with the error, and
  reads nothing of \<open>hResp\<close>.
\<close>

lemma build_rc_Next:
  assumes "build_rc w req = Next m"
  shows "\<exists>u m0. url_Parse w (Request_rc.Url req) = Inr u
           \<and> newMessage w (Request_rc.Method req) (Request_rc.Data req)
                (URL_String w
                   (addParams w (Request_rc.Method req) (Request_rc.Params req) u))
               = Next m0
           \<and> m = setAccept m0"
  using assms by (auto simp add: build_rc_def split: sum.splits step.splits)

lemma build_rc_message:
  assumes "url_Parse w (Request_rc.Url req) = Inr u" and "build_rc w req = Next m"
  shows "http_Request.URL m
           = URL_String w (addParams w (Request_rc.Method req) (Request_rc.Params req) u)"
    and "case Request_rc.Data req of
           None \<Rightarrow> http_Request.Body m = None
         | Some d \<Rightarrow>
             json_Marshal w d = Inr (the (http_Request.Body m))
           \<and> http_Request.Body m \<noteq> None
           \<and> map_of (Header m) ''Content-Type'' = Some [''application/json'']"
proof -
  from build_rc_Next [OF assms(2)] assms(1)
  obtain m0 where
    m0: "newMessage w (Request_rc.Method req) (Request_rc.Data req)
           (URL_String w (addParams w (Request_rc.Method req) (Request_rc.Params req) u))
          = Next m0"
    and m: "m = setAccept m0"
    by auto
  from newMessage_Next(1) [OF m0] m
  show "http_Request.URL m
          = URL_String w (addParams w (Request_rc.Method req) (Request_rc.Params req) u)"
    by (simp add: setAccept_fields)
  from newMessage_Next(3) [OF m0] m
  show "case Request_rc.Data req of
           None \<Rightarrow> http_Request.Body m = None
         | Some d \<Rightarrow>
             json_Marshal w d = Inr (the (http_Request.Body m))
           \<and> http_Request.Body m \<noteq> None
           \<and> map_of (Header m) ''Content-Type'' = Some [''application/json'']"
    by (auto simp add: setAccept_fields setAccept_other_key split: option.splits)
qed

lemma Do_rc_reply:
  assumes "build_rc w req = Next m" and "HttpClient c m = (Some h, None)"
  shows "Do_rc w c req st =
           (req, resolve_rc w \<lparr>Response_rc.Request = Some req, Status = 0,
                               Result = Request_rc.Result req,
                               Error = Request_rc.Error req, RawText = []\<rparr> h st)"
  using assms by (simp add: Do_rc_def Let_def)

lemma Do_rc_destination_by_status:
  assumes "build_rc w req = Next m" and "HttpClient c m = (Some h, None)"
    and "http_Response.Body h = (data, None)" and "data \<noteq> []"
  shows "\<exists>lg resp err st'.
           Do_rc w c req st = (req, st', lg, Returns (Some resp) err)
         \<and> Response_rc.Status resp = StatusCode h
         \<and> Response_rc.RawText resp = data
         \<and> (if in2xx (StatusCode h)
            then Response_rc.Result resp = fst (decode w data (Request_rc.Result req) st)
               \<and> st' = fst (snd (decode w data (Request_rc.Result req) st))
               \<and> Response_rc.Error resp = Request_rc.Error req
            else Response_rc.Error resp = fst (decode w data (Request_rc.Error req) st)
               \<and> st' = fst (snd (decode w data (Request_rc.Error req) st))
               \<and> Response_rc.Result resp = Request_rc.Result req)"
  using assms(3,4)
  by (cases "in2xx (StatusCode h)")
    (auto simp add: Do_rc_reply [OF assms(1,2)] resolve_rc_def ReadAll_def
      unmarshal_slot [symmetric] unmarshal_store [symmetric] split: prod.splits)

lemma Do_rc_empty_body:
  assumes "build_rc w req = Next m" and "HttpClient c m = (Some h, None)"
    and "http_Response.Body h = ([], None)"
  shows "Do_rc w c req st =
           (req, st, [],
            Returns (Some \<lparr>Response_rc.Request = Some req, Status = StatusCode h,
                           Result = Request_rc.Result req,
                           Error = Request_rc.Error req, RawText = []\<rparr>) None)"
  using assms(3) by (simp add: Do_rc_reply [OF assms(1,2)] resolve_rc_def ReadAll_def)

lemma Do_rc_transport_error:
  assumes "build_rc w req = Next m" and "HttpClient c m = (hResp, Some err)"
  shows "\<exists>entry.
           Do_rc w c req st =
             (req, st, [entry],
              Returns (Some \<lparr>Response_rc.Request = Some req, Status = 0,
                             Result = Request_rc.Result req,
                             Error = Request_rc.Error req, RawText = []\<rparr>)
                      (Some err))"
  using assms by (simp add: Do_rc_def Let_def split: prod.splits)

lemma Do_rc_ignores_DefaultError:
  "Do_rc w (c\<lparr>DefaultError := d\<rparr>) req st = Do_rc w c req st"
  by (simp add: Do_rc_def Let_def cong: step.case_cong)

end
